theory Spec2Isabelle
  imports Complex_Main "HOL-Library.Word"
begin

section \<open>JavaScript values used by the application\<close>

text \<open>
  A JavaScript string is a sequence of 16-bit code units; \<open>length\<close>, \<open>includes\<close>,
  \<open>split\<close>, \<open>replace\<close> and \<open>trim\<close> all work on code units, so that is what a string is here.
\<close>

type_synonym jsstring = "16 word list"

definition utf16 :: "string \<Rightarrow> jsstring" where
  \<comment> \<open>an ASCII literal of the source, as code units\<close>
  "utf16 cs = map (\<lambda>c. of_nat (of_char c)) cs"

definition newline :: "16 word" where "newline = 0x0A"
definition dollar :: "16 word" where "dollar = 0x24"

text \<open>
  A value that is a string or \<open>undefined\<close>/\<open>null\<close> is a \<open>jsstring option\<close>. It is falsy when
  it is absent or the empty string; \<open>a || b\<close> is \<open>a\<close> when \<open>a\<close> is truthy and \<open>b\<close> otherwise.
\<close>

fun truthy :: "jsstring option \<Rightarrow> bool" where
  "truthy None = False"
| "truthy (Some s) = (s \<noteq> [])"

definition or_else :: "jsstring option \<Rightarrow> jsstring option \<Rightarrow> jsstring option" where
  "or_else a b = (if truthy a then a else b)"

definition or_default :: "jsstring option \<Rightarrow> jsstring \<Rightarrow> jsstring" where
  "or_default a d = (case a of None \<Rightarrow> d | Some s \<Rightarrow> if s \<noteq> [] then s else d)"

text \<open>
  \<open>s.split(sep)\<close> for a one-unit separator: the pieces between the separators, the empty
  string giving one empty piece. \<open>xs[i]\<close> is \<open>undefined\<close> beyond the end.
\<close>

fun js_split :: "16 word \<Rightarrow> jsstring \<Rightarrow> jsstring list" where
  "js_split sep [] = [[]]"
| "js_split sep (c # cs) =
     (if c = sep then [] # js_split sep cs
      else (case js_split sep cs of
              [] \<Rightarrow> [[c]]
            | piece # pieces \<Rightarrow> (c # piece) # pieces))"

fun js_index :: "'a list \<Rightarrow> nat \<Rightarrow> 'a option" where
  "js_index [] i = None"
| "js_index (a # as) 0 = Some a"
| "js_index (a # as) (Suc i) = js_index as i"

text \<open>\<open>xs.slice(start, end)\<close> for non-negative bounds.\<close>

definition js_slice :: "nat \<Rightarrow> nat \<Rightarrow> 'a list \<Rightarrow> 'a list" where
  "js_slice start stop xs = take (stop - start) (drop start xs)"

text \<open>
  \<open>trim\<close> removes the code units of ECMAScript's WhiteSpace and LineTerminator productions
  from both ends.
\<close>

definition is_white :: "16 word \<Rightarrow> bool" where
  "is_white c =
     (c = 0x09 \<or> c = 0x0A \<or> c = 0x0B \<or> c = 0x0C \<or> c = 0x0D \<or> c = 0x20 \<or> c = 0xA0
      \<or> c = 0x1680 \<or> (0x2000 \<le> c \<and> c \<le> 0x200A) \<or> c = 0x2028 \<or> c = 0x2029
      \<or> c = 0x202F \<or> c = 0x205F \<or> c = 0x3000 \<or> c = 0xFEFF)"

definition trim :: "jsstring \<Rightarrow> jsstring" where
  "trim s = rev (dropWhile is_white (rev (dropWhile is_white s)))"

text \<open>A thrown value is an \<open>Error\<close> carrying its message, or anything else.\<close>

datatype thrown = Error jsstring | NonError

text \<open>
  A computation that returns or throws is a sum, \<open>Inl\<close> the thrown value. An awaited promise
  that settles is the same: \<open>Inl\<close> its rejection, \<open>Inr\<close> its fulfilment.
\<close>

definition try_catch :: "thrown + 'a \<Rightarrow> (thrown \<Rightarrow> thrown + 'a) \<Rightarrow> thrown + 'a" where
  "try_catch body handler = (case body of Inl e \<Rightarrow> handler e | Inr v \<Rightarrow> Inr v)"

text \<open>A promise is rejected, fulfilled, or never settled.\<close>

datatype 'a settled = Rejected thrown | Fulfilled 'a | Pending

section \<open>services/geminiService.ts\<close>

text \<open>
  The two messages of the \<open>catch\<close> block, as the code units of the Khmer literals: the
  text of the template literal before \<open>${error.message}\<close> (it ends in \<open>AI:\<close> and a space),
  and the message returned for a thrown value that is not an \<open>Error\<close>.
\<close>

definition api_error_prefix :: jsstring where
  "api_error_prefix =
    [0x1798, 0x17b6, 0x1793, 0x1794, 0x1789, 0x17d2, 0x17a0, 0x17b6, 0x1780, 0x17d2,
     0x1793, 0x17bb, 0x1784, 0x1780, 0x17b6, 0x179a, 0x1791, 0x17b6, 0x1780, 0x17cb,
     0x1791, 0x1784, 0x1791, 0x17c5, 0x1780, 0x17b6, 0x1793, 0x17cb, 0x179f, 0x17c1,
     0x179c, 0x17b6, 0x1780, 0x1798, 0x17d2, 0x1798, 0x20, 0x41, 0x49, 0x3a,
     0x20]"

definition unknown_error_message :: jsstring where
  "unknown_error_message =
    [0x1798, 0x17b6, 0x1793, 0x1794, 0x1789, 0x17d2, 0x17a0, 0x17b6, 0x178a, 0x17c2,
     0x179b, 0x1798, 0x17b7, 0x1793, 0x17a2, 0x17b6, 0x1785, 0x1780, 0x17c6, 0x178e,
     0x178f, 0x17cb, 0x1794, 0x17b6, 0x1793, 0x1780, 0x17be, 0x178f, 0x17a1, 0x17be,
     0x1784, 0x1793, 0x17c5, 0x1796, 0x17c1, 0x179b, 0x1796, 0x17d2, 0x1799, 0x17b6,
     0x1799, 0x17b6, 0x1798, 0x178a, 0x17c4, 0x17c7, 0x179f, 0x17d2, 0x179a, 0x17b6,
     0x1799, 0x179b, 0x17c6, 0x17a0, 0x17b6, 0x178f, 0x17cb, 0x17d4]"

text \<open>
  \<open>solveLimitFromImage\<close>. The remote call \<open>await ai.models.generateContent(...)\<close> followed by
  \<open>response.text\<close> is the parameter \<open>generateContent\<close>, given the MIME type and the Base64
  data of the inline image part (the prompt and the model name are constants). The call
  throws or rejects, or never settles, or answers; the text of an answer is a string, or
  \<open>undefined\<close> (\<open>None\<close>) when the response carries none, and the code returns it unchecked.
  The whole body is inside \<open>try\<close>; the \<open>catch\<close> block returns a string on both of its
  paths. While the call is pending the function is suspended at its \<open>await\<close>.
\<close>

definition solveLimitFromImage ::
    "(jsstring \<Rightarrow> jsstring \<Rightarrow> jsstring option settled) \<Rightarrow> jsstring \<Rightarrow> jsstring \<Rightarrow>
     jsstring option settled" where
  "solveLimitFromImage generateContent base64Image mimeType =
     (case generateContent mimeType base64Image of
        Fulfilled response_text \<Rightarrow> Fulfilled response_text
      | Pending \<Rightarrow> Pending
      | Rejected error \<Rightarrow>
          (case error of
             Error message \<Rightarrow> Fulfilled (Some (api_error_prefix @ message))
           | NonError \<Rightarrow> Fulfilled (Some unknown_error_message)))"

section \<open>App.tsx: the history entry and its snippet\<close>

record image_data =
  base64 :: jsstring
  mimeType :: jsstring

record history_entry =
  entry_id :: int
  imageData :: image_data
  problemSnippet :: jsstring
  fullSolution :: jsstring

definition placeholder :: jsstring where
  "placeholder = utf16 ''Problem''"

definition is_markup :: "16 word \<Rightarrow> bool" where
  \<comment> \<open>the character class of the regular expression: asterisk, backtick, underscore, hash\<close>
  "is_markup c = (c = 0x2A \<or> c = 0x60 \<or> c = 0x5F \<or> c = 0x23)"

definition qualifies :: "jsstring \<Rightarrow> bool" where
  "qualifies line = (dollar \<in> set line \<and> length line < 100)"

definition extractSnippet :: "jsstring \<Rightarrow> jsstring" where
  "extractSnippet solutionText =
     (let lines = js_split newline solutionText;
          snippetLine = or_default (or_else (find qualifies lines) (js_index lines 0)) placeholder
      in trim (filter (\<lambda>c. \<not> is_markup c) snippetLine))"

text \<open>
  The snippet as the specification words it: the first qualifying line, else the first line,
  and the placeholder if the text is empty.
\<close>

definition first_line :: "jsstring \<Rightarrow> jsstring" where
  "first_line solutionText = takeWhile (\<lambda>c. c \<noteq> newline) solutionText"

definition specified_snippet :: "jsstring \<Rightarrow> jsstring" where
  "specified_snippet solutionText =
     trim (filter (\<lambda>c. \<not> is_markup c)
       (case find qualifies (js_split newline solutionText) of
          Some line \<Rightarrow> line
        | None \<Rightarrow> if solutionText = [] then placeholder else first_line solutionText))"

section \<open>App.tsx: the browser as the handlers use it\<close>

text \<open>
  The registry behind \<open>URL.createObjectURL\<close> and \<open>URL.revokeObjectURL\<close>: the object URLs
  that are live, each with the content it refers to. Binary content (a file, a blob) is
  written as its Base64 text, which is also the form the application keeps the image in.
  The browser chooses the URL it hands out; it is a parameter of every handler that creates
  one. Revoking a URL that is not registered does nothing.
\<close>

type_synonym url_store = "(jsstring \<times> jsstring) list"

definition createObjectURL :: "jsstring \<Rightarrow> jsstring \<Rightarrow> url_store \<Rightarrow> url_store" where
  "createObjectURL url content store = (url, content) # store"

definition revokeObjectURL :: "jsstring \<Rightarrow> url_store \<Rightarrow> url_store" where
  "revokeObjectURL url store = filter (\<lambda>entry. fst entry \<noteq> url) store"

record picked_file =
  file_type :: jsstring
  file_content :: jsstring

record html_image =
  naturalWidth :: real
  naturalHeight :: real
  image_width :: real
  image_height :: real

record pixel_crop =
  crop_x :: real
  crop_y :: real
  crop_width :: real
  crop_height :: real

text \<open>
  The canvas. What it holds after \<open>drawImage\<close> is determined by the image element, the crop
  rectangle and the pixel ratio; the rasterisation (the scale factors, the transform) is the
  browser's (and floating point), so the three are handed to the serialiser as they are.
  \<open>serialise\<close> is the browser's serialisation of the bitmap as a file of the given type at
  the given quality, absent when there is no data; an omitted quality argument is \<open>None\<close>
  and makes the browser use its default quality for the type. Both \<open>toDataURL\<close> and
  \<open>toBlob\<close> are defined from it, as in the HTML Standard.
\<close>

record canvas =
  getContext :: bool
  devicePixelRatio :: "real option"
  serialise :: "html_image \<times> pixel_crop \<times> real \<Rightarrow> jsstring \<Rightarrow> real option \<Rightarrow> jsstring option"

definition comma :: "16 word" where "comma = 0x2C"

definition data_url :: "jsstring \<Rightarrow> jsstring \<Rightarrow> jsstring" where
  \<comment> \<open>the template literal \<open>data:${mimeType};base64,${base64}\<close>\<close>
  "data_url mime_type payload = utf16 ''data:'' @ mime_type @ utf16 '';base64,'' @ payload"

definition toDataURL ::
    "canvas \<Rightarrow> html_image \<times> pixel_crop \<times> real \<Rightarrow> jsstring \<Rightarrow> real option \<Rightarrow> jsstring" where
  "toDataURL cv drawn mime_type quality =
     (case serialise cv drawn mime_type quality of
        None \<Rightarrow> utf16 ''data:,''
      | Some payload \<Rightarrow> data_url mime_type payload)"

definition toBlob ::
    "canvas \<Rightarrow> html_image \<times> pixel_crop \<times> real \<Rightarrow> jsstring \<Rightarrow> real option \<Rightarrow> jsstring option" where
  "toBlob cv drawn mime_type quality = serialise cv drawn mime_type quality"

definition pixel_ratio :: "canvas \<Rightarrow> real" where
  \<comment> \<open>\<open>window.devicePixelRatio || 1\<close>\<close>
  "pixel_ratio cv =
     (case devicePixelRatio cv of None \<Rightarrow> 1 | Some ratio \<Rightarrow> if ratio = 0 then 1 else ratio)"

record cropped =
  cropped_base64 :: jsstring
  cropped_url :: jsstring

text \<open>
  \<open>getCroppedImg\<close>. A missing 2D context throws inside the promise's executor, which
  rejects the promise. The payload is the piece of \<open>canvas.toDataURL(mimeType)\<close> after
  its first comma; that call passes no quality. A data URL has a comma, so the piece is
  never \<open>undefined\<close> (\<open>toDataURL_has_payload\<close> below), and the \<open>None\<close> branch is
  not taken. \<open>canvas.toBlob(callback, mimeType, 1)\<close> passes quality 1; on a null blob the
  callback logs and returns without resolving, and the promise never settles.
\<close>

definition getCroppedImg ::
    "canvas \<Rightarrow> html_image \<Rightarrow> pixel_crop \<Rightarrow> jsstring \<Rightarrow> jsstring \<Rightarrow> url_store \<Rightarrow>
     (cropped \<times> url_store) settled" where
  "getCroppedImg cv img crop mime_type new_url store =
     (if \<not> getContext cv then Rejected (Error (utf16 ''Could not get canvas context''))
      else
        let pixelRatio = pixel_ratio cv;
            drawn = (img, crop, pixelRatio);
            payload = (case js_index (js_split comma (toDataURL cv drawn mime_type None)) 1 of
                         None \<Rightarrow> []
                       | Some piece \<Rightarrow> piece)
        in case toBlob cv drawn mime_type (Some 1) of
             None \<Rightarrow> Pending
           | Some blob \<Rightarrow>
               Fulfilled (\<lparr>cropped_base64 = payload, cropped_url = new_url\<rparr>,
                          createObjectURL new_url blob store))"

section \<open>App.tsx: the state of the App component and its handlers\<close>

text \<open>
  The \<open>useState\<close> cells and the image ref of \<open>App\<close>, and \<open>objectUrls\<close>, the browser's
  registry of live object URLs. A handler is a function from the state at the event to the
  state after it.
\<close>

record app =
  imageBase64 :: "image_data option"
  imageUrl :: "jsstring option"
  solution :: "jsstring option"
  isLoading :: bool
  error :: "jsstring option"
  isCopied :: bool
  history :: "history_entry list"
  uncroppedImageUrl :: "jsstring option"
  isCropperOpen :: bool
  originalMimeType :: "jsstring option"
  completedCrop :: "pixel_crop option"
  cropImageRef :: "html_image option"
  objectUrls :: url_store

definition initial_state :: app where
  "initial_state =
     \<lparr>imageBase64 = None, imageUrl = None, solution = None, isLoading = False, error = None,
      isCopied = False, history = [], uncroppedImageUrl = None, isCropperOpen = False,
      originalMimeType = None, completedCrop = None, cropImageRef = None, objectUrls = []\<rparr>"

text \<open>What \<open>SolutionDisplay\<close> renders, in the order of its tests.\<close>

datatype solve_outcome = Idle | InProgress | Succeeded jsstring | Failed jsstring

definition displayed :: "app \<Rightarrow> solve_outcome" where
  "displayed s =
     (if isLoading s then InProgress
      else if truthy (error s) then Failed (or_default (error s) [])
      else if \<not> truthy (solution s) then Idle
      else Succeeded (or_default (solution s) []))"

text \<open>
  A JSON value, as \<open>JSON.parse\<close> returns it; an object is the list of its properties, each
  key once.
\<close>

datatype json =
    JNull
  | JBool bool
  | JNumber real
  | JString jsstring
  | JArray "json list"
  | JObject "(jsstring \<times> json) list"

text \<open>
  \<open>JSON.parse\<close> is a parameter: it throws, or returns a value. The value is \<open>Entries\<close> when
  it is an array of objects of the shape of \<open>HistoryEntry\<close>, and \<open>Value\<close> with the JSON value
  itself when it is anything else. The result is typed \<open>any\<close>, and the effect passes it to
  \<open>setHistory\<close> unchecked. So the state after the effect is either a state of the declared
  type, or a state whose \<open>history\<close> cell holds a value that is no list of entries, the other
  cells being those of the state given.
\<close>

datatype parsed = Entries "history_entry list" | Value json

datatype loaded = WellTyped app | IllTyped json app

text \<open>
  The history load effect, run once on mount. \<open>localStorage.getItem\<close> returns the stored
  text or null, or throws.
\<close>

definition load_history ::
    "(jsstring \<Rightarrow> thrown + parsed) \<Rightarrow> thrown + jsstring option \<Rightarrow> app \<Rightarrow> thrown + loaded" where
  "load_history json_parse getItem s =
     try_catch
       (case getItem of
          Inl e \<Rightarrow> Inl e
        | Inr storedHistory \<Rightarrow>
            (case storedHistory of
               None \<Rightarrow> Inr (WellTyped s)
             | Some stored \<Rightarrow>
                 if stored = [] then Inr (WellTyped s)
                 else (case json_parse stored of
                         Inl e \<Rightarrow> Inl e
                       | Inr (Entries entries) \<Rightarrow> Inr (WellTyped (s\<lparr>history := entries\<rparr>))
                       | Inr (Value v) \<Rightarrow> Inr (IllTyped v s))))
       (\<lambda>error. Inr (WellTyped (s\<lparr>history := []\<rparr>)))"

text \<open>
  The first test of \<open>HistorySection\<close>, \<open>history.length === 0\<close>, at the render that follows.
  Reading a property of \<open>null\<close> throws a TypeError (the wording of its message is the
  engine's); a boolean and a number have no \<open>length\<close>, and \<open>undefined === 0\<close> is false.
\<close>

definition history_is_empty :: "loaded \<Rightarrow> thrown + bool" where
  "history_is_empty l =
     (case l of
        WellTyped s \<Rightarrow> Inr (history s = [])
      | IllTyped v s \<Rightarrow>
          (case v of
             JNull \<Rightarrow> Inl (Error (utf16 ''Cannot read properties of null''))
           | JBool b \<Rightarrow> Inr False
           | JNumber n \<Rightarrow> Inr False
           | JString t \<Rightarrow> Inr (t = [])
           | JArray vs \<Rightarrow> Inr (vs = [])
           | JObject properties \<Rightarrow> Inr (map_of properties (utf16 ''length'') = Some (JNumber 0))))"

definition revoke_if_set :: "jsstring option \<Rightarrow> url_store \<Rightarrow> url_store" where
  \<comment> \<open>\<open>if (url) URL.revokeObjectURL(url)\<close>\<close>
  "revoke_if_set url store =
     (case url of None \<Rightarrow> store | Some u \<Rightarrow> if u \<noteq> [] then revokeObjectURL u store else store)"

definition handleImageChange :: "picked_file option \<Rightarrow> jsstring \<Rightarrow> app \<Rightarrow> app" where
  "handleImageChange picked new_url s =
     (case picked of
        None \<Rightarrow> s
      | Some f \<Rightarrow>
          s\<lparr>objectUrls :=
               createObjectURL new_url (file_content f)
                 (revoke_if_set (uncroppedImageUrl s) (revoke_if_set (imageUrl s) (objectUrls s))),
            solution := None, error := None, isCopied := False,
            imageUrl := None, imageBase64 := None,
            originalMimeType := Some (file_type f),
            uncroppedImageUrl := Some new_url, isCropperOpen := True\<rparr>)"

definition crop_failed_message :: jsstring where
  "crop_failed_message = utf16 ''Could not crop the image. Please try again.''"

definition handleCropConfirm :: "canvas \<Rightarrow> jsstring \<Rightarrow> app \<Rightarrow> app" where
  "handleCropConfirm cv new_url s =
     (case (completedCrop s, cropImageRef s, originalMimeType s) of
        (Some crop, Some img, Some mime_type) \<Rightarrow>
          if mime_type = [] then s
          else (case getCroppedImg cv img crop mime_type new_url (objectUrls s) of
                  Fulfilled (croppedImageData, store) \<Rightarrow>
                    s\<lparr>objectUrls := store,
                      imageBase64 := Some \<lparr>base64 = cropped_base64 croppedImageData,
                                            mimeType = mime_type\<rparr>,
                      imageUrl := Some (cropped_url croppedImageData),
                      isCropperOpen := False, uncroppedImageUrl := None\<rparr>
                | Rejected e \<Rightarrow>
                    s\<lparr>error := Some crop_failed_message,
                      isCropperOpen := False, uncroppedImageUrl := None\<rparr>
                | Pending \<Rightarrow> s)
      | _ \<Rightarrow> s)"

definition handleCropCancel :: "app \<Rightarrow> app" where
  "handleCropCancel s = s\<lparr>isCropperOpen := False, uncroppedImageUrl := None\<rparr>"

text \<open>
  The message that the \<open>catch\<close> block of \<open>handleSolve\<close> passes to \<open>setError\<close>, as the
  code units of the literal in the source file.
\<close>

definition solve_failed_message :: jsstring where
  "solve_failed_message =
    [0xe1, 0x2dc, 0xe1, 0xb6, 0xe1, 0x201c, 0xe1, 0x201d, 0xe1, 0x2030,
     0xe1, 0x178, 0x2019, 0xe1, 0xa0, 0xe1, 0xb6, 0xe1, 0x20ac, 0xe1,
     0x178, 0x2019, 0xe1, 0x201c, 0xe1, 0xbb, 0xe1, 0x201e, 0xe1, 0x20ac,
     0xe1, 0xb6, 0xe1, 0x161, 0xe1, 0x160, 0xe1, 0x178, 0x201e, 0xe1,
     0x178, 0x2021, 0xe1, 0x178, 0xe1, 0x178, 0x2019, 0xe1, 0x161, 0xe1,
     0xb6, 0xe1, 0x2122, 0xe1, 0x203a, 0xe1, 0x178, 0x2020, 0xe1, 0xa0,
     0xe1, 0xb6, 0xe1, 0xe1, 0x178, 0x2039, 0xe1, 0x178, 0x201d, 0x20,
     0xe1, 0x178, 0xe1, 0xbc, 0xe1, 0x2dc, 0xe1, 0x2013, 0xe1, 0x178,
     0x2019, 0xe1, 0x2122, 0xe1, 0xb6, 0xe1, 0x2122, 0xe1, 0xb6, 0xe1,
     0x2dc, 0xe1, 0x2dc, 0xe1, 0x178, 0x2019, 0xe1, 0xe1, 0x201e, 0xe1,
     0x2018, 0xe1, 0x178, 0x20ac, 0xe1, 0xe1, 0x178, 0x201d]"

text \<open>
  \<open>handleSolve\<close>. The updater passed to \<open>setHistory\<close> is \<open>history_insert\<close>. The handler
  runs up to its \<open>await\<close> (\<open>handleSolve_begin\<close>) and resumes when the promise settles
  (\<open>handleSolve_settle\<close>), with the image it captured when it was called and \<open>Date.now()\<close>
  as \<open>now\<close>; \<open>handleSolve\<close> is the two in sequence around the service call, and stops
  after the first when the promise never settles. When the promise is fulfilled with
  \<open>undefined\<close>, \<open>setSolution(undefined)\<close> is followed by \<open>solutionText.split\<close> throwing a
  TypeError inside \<open>extractSnippet\<close>, which the \<open>catch\<close> block receives.
\<close>

definition history_insert :: "history_entry \<Rightarrow> history_entry list \<Rightarrow> history_entry list" where
  "history_insert newEntry prevHistory = js_slice 0 20 (newEntry # prevHistory)"

definition handleSolve_begin :: "app \<Rightarrow> app" where
  "handleSolve_begin s = s\<lparr>isLoading := True, error := None, solution := None, isCopied := False\<rparr>"

definition handleSolve_settle ::
    "image_data \<Rightarrow> thrown + jsstring option \<Rightarrow> int \<Rightarrow> app \<Rightarrow> app" where
  "handleSolve_settle img awaited now s =
     (case awaited of
        Inr (Some result) \<Rightarrow>
          s\<lparr>solution := Some result,
            history := history_insert
                         \<lparr>entry_id = now, imageData = img,
                          problemSnippet = extractSnippet result, fullSolution = result\<rparr>
                         (history s),
            isLoading := False\<rparr>
      | Inr None \<Rightarrow>
          s\<lparr>solution := None, error := Some solve_failed_message, isLoading := False\<rparr>
      | Inl err \<Rightarrow> s\<lparr>error := Some solve_failed_message, isLoading := False\<rparr>)"

definition handleSolve ::
    "(jsstring \<Rightarrow> jsstring \<Rightarrow> jsstring option settled) \<Rightarrow> int \<Rightarrow> app \<Rightarrow> app" where
  "handleSolve generateContent now s =
     (case imageBase64 s of
        None \<Rightarrow> s
      | Some img \<Rightarrow>
          (case solveLimitFromImage generateContent (base64 img) (mimeType img) of
             Fulfilled result \<Rightarrow> handleSolve_settle img (Inr result) now (handleSolve_begin s)
           | Rejected err \<Rightarrow> handleSolve_settle img (Inl err) now (handleSolve_begin s)
           | Pending \<Rightarrow> handleSolve_begin s))"

definition handleSelectHistoryItem :: "history_entry \<Rightarrow> app \<Rightarrow> app" where
  "handleSelectHistoryItem item s =
     s\<lparr>imageBase64 := Some (imageData item),
       imageUrl := Some (data_url (mimeType (imageData item)) (base64 (imageData item))),
       solution := Some (fullSolution item),
       error := None, isCopied := False\<rparr>"

definition handleClearHistory :: "app \<Rightarrow> app" where
  "handleClearHistory s = s\<lparr>history := []\<rparr>"

definition handleDeleteHistoryEntry :: "int \<Rightarrow> app \<Rightarrow> app" where
  "handleDeleteHistoryEntry i s = s\<lparr>history := filter (\<lambda>entry. entry_id entry \<noteq> i) (history s)\<rparr>"

section \<open>The handlers as events\<close>

text \<open>
  Everything that changes the state: the handlers, the crop widget reporting a completed
  rectangle (\<open>setCompletedCrop\<close>), and the crop modal mounting its image (the ref). \<open>Solve\<close>
  is a solve that runs undisturbed, to completion if the call settles; \<open>SolveBegin\<close> and
  \<open>SolveSettle\<close> are its two halves, between which other events may fall.
\<close>

datatype event =
    ImageChange "picked_file option" jsstring
  | ImageLoaded html_image
  | CropComplete pixel_crop
  | CropConfirm canvas jsstring
  | CropCancel
  | Solve "jsstring \<Rightarrow> jsstring \<Rightarrow> jsstring option settled" int
  | SolveBegin
  | SolveSettle image_data "thrown + jsstring option" int
  | SelectHistoryItem history_entry
  | ClearHistory
  | DeleteHistoryEntry int

fun step :: "event \<Rightarrow> app \<Rightarrow> app" where
  "step (ImageChange picked new_url) s = handleImageChange picked new_url s"
| "step (ImageLoaded img) s = s\<lparr>cropImageRef := Some img\<rparr>"
| "step (CropComplete c) s = s\<lparr>completedCrop := Some c\<rparr>"
| "step (CropConfirm cv new_url) s = handleCropConfirm cv new_url s"
| "step CropCancel s = handleCropCancel s"
| "step (Solve generateContent now) s = handleSolve generateContent now s"
| "step SolveBegin s = (case imageBase64 s of None \<Rightarrow> s | Some img \<Rightarrow> handleSolve_begin s)"
| "step (SolveSettle img awaited now) s = handleSolve_settle img awaited now s"
| "step (SelectHistoryItem item) s = handleSelectHistoryItem item s"
| "step ClearHistory s = handleClearHistory s"
| "step (DeleteHistoryEntry i) s = handleDeleteHistoryEntry i s"

definition run :: "event list \<Rightarrow> app \<Rightarrow> app" where
  "run events s = foldl (\<lambda>state e. step e state) s events"

definition handed_out :: "event \<Rightarrow> jsstring option" where
  \<comment> \<open>the object URL the browser hands out during the event, if it creates one\<close>
  "handed_out e =
     (case e of ImageChange picked new_url \<Rightarrow> Some new_url
              | CropConfirm cv new_url \<Rightarrow> Some new_url
              | _ \<Rightarrow> None)"

definition is_confirm :: "event \<Rightarrow> bool" where
  "is_confirm e = (case e of CropConfirm cv new_url \<Rightarrow> True | _ \<Rightarrow> False)"

section \<open>Display handles and the problem state\<close>

text \<open>
  An object URL starts with \<open>blob:\<close>. A registered object URL that neither \<open>imageUrl\<close> nor
  \<open>uncroppedImageUrl\<close> holds is out of the handlers' reach: those two cells are all that
  \<open>handleImageChange\<close>, the one place that revokes, ever passes to \<open>revokeObjectURL\<close>.
\<close>

definition blob_url :: "jsstring \<Rightarrow> bool" where
  "blob_url url = (take 5 url = utf16 ''blob:'')"

definition unreachable_url :: "jsstring \<Rightarrow> app \<Rightarrow> bool" where
  "unreachable_url url s =
     (url \<in> fst ` set (objectUrls s) \<and> imageUrl s \<noteq> Some url \<and> uncroppedImageUrl s \<noteq> Some url)"

text \<open>
  The invariant of the problem state. A display URL shows the image's bytes when it is the
  data URL built from the image's MIME type and payload, or a live object URL whose content
  is the payload.
\<close>

definition url_shows :: "url_store \<Rightarrow> jsstring \<Rightarrow> image_data \<Rightarrow> bool" where
  "url_shows store url img =
     (url = data_url (mimeType img) (base64 img) \<or> map_of store url = Some (base64 img))"

definition presence_inv :: "app \<Rightarrow> bool" where
  "presence_inv s = ((imageUrl s = None) = (imageBase64 s = None))"

definition problem_state_inv :: "app \<Rightarrow> bool" where
  "problem_state_inv s =
     (case (imageBase64 s, imageUrl s) of
        (None, None) \<Rightarrow> True
      | (Some img, Some url) \<Rightarrow> url_shows (objectUrls s) url img
      | _ \<Rightarrow> False)"

section \<open>Sequences of inserts, and example values\<close>

text \<open>A sequence of inserts into the history log, the first of the list first.\<close>

definition inserts :: "history_entry list \<Rightarrow> history_entry list \<Rightarrow> history_entry list" where
  "inserts entries h = foldl (\<lambda>prevHistory newEntry. history_insert newEntry prevHistory) h entries"

text \<open>Entries for the examples.\<close>

definition numbered_entry :: "int \<Rightarrow> history_entry" where
  "numbered_entry n =
     \<lparr>entry_id = n, imageData = \<lparr>base64 = utf16 ''AAAA'', mimeType = utf16 ''image/png''\<rparr>,
      problemSnippet = utf16 ''x'', fullSolution = utf16 ''x''\<rparr>"

definition twenty_one_entries :: "history_entry list" where
  "twenty_one_entries =
     map numbered_entry [1, 2, 3, 4, 5, 6, 7, 8, 9, 10, 11, 12, 13, 14, 15, 16, 17, 18, 19, 20, 21]"

text \<open>
  A canvas whose serialisation depends on the quality argument, as that of a lossy type
  (JPEG, WebP) does, and one whose serialisation does not (PNG).
\<close>

definition lossy_canvas :: canvas where
  "lossy_canvas =
     \<lparr>getContext = True, devicePixelRatio = Some 2,
      serialise = (\<lambda>drawn mime_type quality.
         Some (case quality of
                 None \<Rightarrow> utf16 ''ZGVmYXVsdA==''
               | Some q \<Rightarrow> if q = 1 then utf16 ''bWF4'' else utf16 ''b3RoZXI=''))\<rparr>"

definition lossless_canvas :: canvas where
  "lossless_canvas =
     \<lparr>getContext = True, devicePixelRatio = None,
      serialise = (\<lambda>drawn mime_type quality. Some (utf16 ''iVBORw0K''))\<rparr>"

definition sample_image :: html_image where
  "sample_image = \<lparr>naturalWidth = 800, naturalHeight = 600, image_width = 400, image_height = 300\<rparr>"

definition sample_crop :: pixel_crop where
  "sample_crop = \<lparr>crop_x = 20, crop_y = 15, crop_width = 270, crop_height = 270\<rparr>"

definition sample_file :: picked_file where
  "sample_file = \<lparr>file_type = utf16 ''image/jpeg'', file_content = utf16 ''/9j/4AAQ''\<rparr>"

definition png_file :: picked_file where
  "png_file = \<lparr>file_type = utf16 ''image/png'', file_content = utf16 ''iVBORw0KGgo=''\<rparr>"

text \<open>
  A state in which a problem and its solution are on display: a PNG was picked, cropped and
  solved, and the history was then cleared.
\<close>

definition showing_solution :: app where
  "showing_solution =
     run [ImageChange (Some png_file) (utf16 ''blob:0''), ImageLoaded sample_image,
          CropComplete sample_crop, CropConfirm lossless_canvas (utf16 ''blob:1''),
          Solve (\<lambda>t d. Fulfilled (Some (utf16 ''## $x$''))) 1700000000000, ClearHistory]
       initial_state"

text \<open>A state in which a JPEG has been picked and a crop rectangle chosen.\<close>

definition cropping :: app where
  "cropping =
     run [ImageChange (Some sample_file) (utf16 ''blob:2''), ImageLoaded sample_image,
          CropComplete sample_crop] initial_state"

section \<open>Properties of the service\<close>

lemma try_catch_total_handler:
  "(\<And>e. \<exists>v. handler e = Inr v) \<Longrightarrow> \<exists>v. try_catch body handler = Inr v"
  by (cases body) (auto simp: try_catch_def)

lemma solveLimitFromImage_not_rejected:
  "solveLimitFromImage generateContent b m \<noteq> Rejected e"
  by (simp add: solveLimitFromImage_def split: settled.split thrown.split)

text \<open>
  C10, as amended. Whatever the remote call does, \<open>solveLimitFromImage\<close> never rejects, and
  it stays pending exactly when the remote call never settles. A thrown \<open>Error\<close> becomes a
  fulfilment with the fixed prefix followed by the error's message, any other thrown value
  one with the fixed fallback message, and an answer that carries text one with that text;
  the caller receives the same fulfilment from a failed call as from a call that had
  answered with that very message.
\<close>

theorem solveLimitFromImage_never_rejects:
  "solveLimitFromImage generateContent img mt \<noteq> Rejected e
   \<and> (solveLimitFromImage generateContent img mt = Pending) = (generateContent mt img = Pending)
   \<and> solveLimitFromImage (\<lambda>t d. Fulfilled (Some answer)) img mt = Fulfilled (Some answer)
   \<and> solveLimitFromImage (\<lambda>t d. Rejected (Error message)) img mt
        = Fulfilled (Some (api_error_prefix @ message))
   \<and> solveLimitFromImage (\<lambda>t d. Rejected NonError) img mt = Fulfilled (Some unknown_error_message)
   \<and> solveLimitFromImage (\<lambda>t d. Rejected (Error message)) img mt
        = solveLimitFromImage (\<lambda>t d. Fulfilled (Some (api_error_prefix @ message))) img mt"
proof -
  have "(solveLimitFromImage generateContent img mt = Pending) = (generateContent mt img = Pending)"
    by (simp add: solveLimitFromImage_def split: settled.split thrown.split)
  then show ?thesis
    using solveLimitFromImage_not_rejected [of generateContent img mt e]
    by (simp add: solveLimitFromImage_def)
qed

text \<open>
  C10 as stated fails: on a remote call that never settles \<open>solveLimitFromImage\<close> never
  settles, and on an answer that carries no text it is fulfilled with \<open>undefined\<close>, which
  is no string.
\<close>

theorem solveLimitFromImage_not_always_a_string_counterexample:
  "solveLimitFromImage (\<lambda>t d. Pending) (utf16 ''iVBORw0K'') (utf16 ''image/png'') = Pending
   \<and> solveLimitFromImage (\<lambda>t d. Fulfilled None) (utf16 ''iVBORw0K'') (utf16 ''image/png'')
       = Fulfilled None"
  by (simp add: solveLimitFromImage_def)

section \<open>The snippet\<close>

lemma js_split_first: "js_index (js_split sep s) 0 = Some (takeWhile (\<lambda>c. c \<noteq> sep) s)"
  by (induction s) (auto split: list.splits)

lemma find_qualifies_truthy: "find qualifies ls = Some l \<Longrightarrow> l \<noteq> []"
  by (auto simp: find_Some_iff qualifies_def)

lemma snippet_line_choice:
  "or_default (or_else (find qualifies (js_split newline t)) (js_index (js_split newline t) 0)) placeholder
   = (case find qualifies (js_split newline t) of
        Some line \<Rightarrow> line
      | None \<Rightarrow> if first_line t = [] then placeholder else first_line t)"
proof (cases "find qualifies (js_split newline t)")
  case None
  then show ?thesis
    by (simp add: or_else_def or_default_def js_split_first first_line_def)
next
  case (Some l)
  then have "l \<noteq> []" by (rule find_qualifies_truthy)
  with Some show ?thesis
    by (simp add: or_else_def or_default_def)
qed

lemma trim_prefix: "\<exists>c. dropWhile is_white s = trim s @ c"
proof -
  let ?a = "dropWhile is_white s"
  have "rev (dropWhile is_white (rev ?a)) @ rev (takeWhile is_white (rev ?a)) = ?a"
    by (metis rev_append rev_rev_ident takeWhile_dropWhile_id)
  then have "?a = trim s @ rev (takeWhile is_white (rev ?a))"
    by (simp add: trim_def)
  then show ?thesis ..
qed

lemma trim_no_leading: "dropWhile is_white (trim s) = trim s"
proof (cases "trim s")
  case Nil
  then show ?thesis by simp
next
  case (Cons b bs)
  obtain c where c: "dropWhile is_white s = trim s @ c" using trim_prefix by blast
  with Cons have "hd (dropWhile is_white s) = b" by simp
  moreover from c Cons have "dropWhile is_white s \<noteq> []" by simp
  ultimately have "\<not> is_white b" using hd_dropWhile by metis
  with Cons show ?thesis by simp
qed

lemma trim_no_trailing: "dropWhile is_white (rev (trim s)) = rev (trim s)"
  by (simp add: trim_def)

lemma set_trim: "set (trim s) \<subseteq> set s"
proof -
  have "set (trim s) \<subseteq> set (dropWhile is_white s)"
    unfolding trim_def using set_dropWhileD by fastforce
  also have "\<dots> \<subseteq> set s" using set_dropWhileD by fastforce
  finally show ?thesis .
qed

lemma trim_strip_no_markup: "filter is_markup (trim (filter (\<lambda>c. \<not> is_markup c) s)) = []"
  using set_trim [of "filter (\<lambda>c. \<not> is_markup c) s"] by (auto simp: filter_empty_conv)

text \<open>
  C5, as amended. \<open>extractSnippet\<close> is a function of the solved text alone. It takes the first
  line that contains a dollar sign and is shorter than 100 code units; if no line qualifies
  it takes the first line when that line is not empty, and the placeholder \<open>Problem\<close> when
  the first line is empty (which includes the empty text). From the chosen line it removes
  every asterisk, backtick, underscore and hash and then trims white space at both ends, so
  the snippet holds no markup character and neither starts nor ends with white space.
\<close>

theorem extractSnippet_fallback_order:
  "extractSnippet t =
     trim (filter (\<lambda>c. \<not> is_markup c)
       (case find qualifies (js_split newline t) of
          Some line \<Rightarrow> line
        | None \<Rightarrow> if first_line t = [] then placeholder else first_line t))
   \<and> filter is_markup (extractSnippet t) = []
   \<and> dropWhile is_white (extractSnippet t) = extractSnippet t
   \<and> dropWhile is_white (rev (extractSnippet t)) = rev (extractSnippet t)"
  unfolding extractSnippet_def Let_def snippet_line_choice
  by (simp only: trim_strip_no_markup trim_no_leading trim_no_trailing simp_thms)

text \<open>
  C5 as stated fails on a text whose first line is empty and in which no line qualifies:
  the claim gives the (empty) first line, the code gives the placeholder.
\<close>

theorem extractSnippet_empty_first_line_counterexample:
  "extractSnippet (newline # utf16 ''abc'') = utf16 ''Problem''
   \<and> specified_snippet (newline # utf16 ''abc'') = []
   \<and> extractSnippet (newline # utf16 ''abc'') \<noteq> specified_snippet (newline # utf16 ''abc'')"
  by (simp add: extractSnippet_def specified_snippet_def first_line_def placeholder_def utf16_def
      newline_def dollar_def qualifies_def or_else_def or_default_def trim_def is_white_def is_markup_def)

section \<open>The history log\<close>

lemma history_insert_take: "history_insert e h = take 20 (e # h)"
  by (simp add: history_insert_def js_slice_def)

lemma take_append_take: "take n (xs @ take n ys) = take n (xs @ ys)"
  by (simp add: min_def)

lemma inserts_Cons: "inserts (e # es) h = inserts es (history_insert e h)"
  by (simp add: inserts_def)

lemma inserts_latest:
  "inserts es h = (if es = [] then h else take 20 (rev es @ h))"
proof (induction es arbitrary: h)
  case Nil
  then show ?case by (simp add: inserts_def)
next
  case (Cons e es)
  show ?case
  proof (cases "es = []")
    case True
    then show ?thesis by (simp add: inserts_def history_insert_take)
  next
    case False
    have "inserts (e # es) h = take 20 (rev es @ take 20 (e # h))"
      using Cons.IH [of "history_insert e h"] False
      by (simp only: inserts_Cons history_insert_take if_False)
    also have "\<dots> = take 20 (rev es @ e # h)" by (rule take_append_take)
    finally show ?thesis by simp
  qed
qed

lemma inserts_empty: "inserts es [] = take 20 (rev es)"
  by (simp add: inserts_latest)

text \<open>
  C2. An insert puts the new entry at position 0 in front of the previous log and keeps at
  most 20 entries. After any sequence of inserts into the empty log the log holds at most 20
  entries and they are exactly the 20 most recent, the most recent first; a log within the
  bound stays within it. After 21 distinct entries the log has 20 entries, the first one
  inserted is gone and the last one inserted is at position 0.
\<close>

theorem history_insert_keeps_latest_20:
  "history_insert e h = e # take 19 h
   \<and> length (inserts es []) \<le> 20
   \<and> inserts es [] = take 20 (rev es)
   \<and> (length h \<le> 20 \<longrightarrow> length (inserts es h) \<le> 20)
   \<and> (length es = 21 \<and> distinct es \<longrightarrow>
        length (inserts es []) = 20 \<and> hd es \<notin> set (inserts es []) \<and> inserts es [] ! 0 = last es)"
proof (intro conjI impI)
  show "history_insert e h = e # take 19 h"
    by (simp add: history_insert_take)
  show "length (inserts es []) \<le> 20" by (simp add: inserts_empty)
  show "inserts es [] = take 20 (rev es)" by (rule inserts_empty)
  show "length (inserts es h) \<le> 20" if "length h \<le> 20"
    using that by (auto simp: inserts_latest min_def)
next
  assume a: "length es = 21 \<and> distinct es"
  then show "length (inserts es []) = 20" by (simp add: inserts_empty)
  from a obtain x xs where es: "es = x # xs" by (cases es) auto
  with a have xs: "length xs = 20" "x \<notin> set xs" by auto
  have "inserts es [] = rev xs" using es xs by (simp add: inserts_empty)
  then show "hd es \<notin> set (inserts es [])" using es xs by simp
  from a have "es \<noteq> []" by auto
  then show "inserts es [] ! 0 = last es"
    by (simp add: inserts_empty hd_rev flip: hd_conv_nth)
qed

theorem history_insert_keeps_latest_20_witness:
  "length twenty_one_entries = 21 \<and> distinct twenty_one_entries
   \<and> length (inserts twenty_one_entries []) = 20
   \<and> numbered_entry 1 \<notin> set (inserts twenty_one_entries [])
   \<and> inserts twenty_one_entries [] ! 0 = numbered_entry 21
   \<and> length (inserts twenty_one_entries (inserts twenty_one_entries [])) \<le> 20"
proof -
  let ?E = twenty_one_entries
  note inst = history_insert_keeps_latest_20 [of "numbered_entry 0" "inserts ?E []" ?E]
  have h: "length ?E = 21 \<and> distinct ?E"
    by (simp add: twenty_one_entries_def numbered_entry_def)
  have ends: "hd ?E = numbered_entry 1" "last ?E = numbered_entry 21"
    by (simp_all add: twenty_one_entries_def)
  from inst h have t: "length (inserts ?E []) = 20 \<and> hd ?E \<notin> set (inserts ?E [])
      \<and> inserts ?E [] ! 0 = last ?E"
    by blast
  from inst have "length (inserts ?E []) \<le> 20" by blast
  with inst have b: "length (inserts ?E (inserts ?E [])) \<le> 20" by blast
  from h t b show ?thesis by (simp only: ends simp_thms)
qed

section \<open>The example states\<close>

lemma showing_solution_state:
  "showing_solution =
     initial_state
       \<lparr>imageBase64 := Some \<lparr>base64 = utf16 ''iVBORw0K'', mimeType = utf16 ''image/png''\<rparr>,
        imageUrl := Some (utf16 ''blob:1''),
        solution := Some (utf16 ''## $x$''),
        originalMimeType := Some (utf16 ''image/png''),
        completedCrop := Some sample_crop, cropImageRef := Some sample_image,
        objectUrls := [(utf16 ''blob:1'', utf16 ''iVBORw0K''),
                       (utf16 ''blob:0'', utf16 ''iVBORw0KGgo='')]\<rparr>"
proof -
  have g: "getCroppedImg lossless_canvas sample_image sample_crop (utf16 ''image/png'')
        (utf16 ''blob:1'') [(utf16 ''blob:0'', utf16 ''iVBORw0KGgo='')]
     = Fulfilled (\<lparr>cropped_base64 = utf16 ''iVBORw0K'', cropped_url = utf16 ''blob:1''\<rparr>,
                  [(utf16 ''blob:1'', utf16 ''iVBORw0K''), (utf16 ''blob:0'', utf16 ''iVBORw0KGgo='')])"
    by (simp add: getCroppedImg_def toDataURL_def toBlob_def createObjectURL_def lossless_canvas_def
        data_url_def utf16_def comma_def)
  have p: "utf16 ''image/png'' \<noteq> []" by (simp add: utf16_def)
  show ?thesis
    unfolding showing_solution_def run_def
    by (simp add: handleImageChange_def initial_state_def createObjectURL_def revoke_if_set_def
        png_file_def handleCropConfirm_def g p handleSolve_def handleSolve_begin_def
        handleSolve_settle_def solveLimitFromImage_def handleClearHistory_def)
qed

lemma cropping_state:
  "cropping = initial_state
     \<lparr>objectUrls := [(utf16 ''blob:2'', utf16 ''/9j/4AAQ'')],
      originalMimeType := Some (utf16 ''image/jpeg''),
      uncroppedImageUrl := Some (utf16 ''blob:2''), isCropperOpen := True,
      cropImageRef := Some sample_image, completedCrop := Some sample_crop\<rparr>"
  by (simp add: cropping_def run_def handleImageChange_def initial_state_def createObjectURL_def
      revoke_if_set_def sample_file_def)

section \<open>Loading the history\<close>

text \<open>
  C9 does not hold of the code. The load effect itself never throws, and at startup, where
  the log is empty, it leaves the log empty when nothing is stored, when reading the store
  throws, and when the stored text does not parse. But a stored text that parses is stored
  as it is: when it parses to a value that is no list of entries, that value becomes the
  content of the \<open>history\<close> cell, and for \<open>null\<close> the first test of \<open>HistorySection\<close> throws
  at the next render.
\<close>

theorem load_history_stores_any_parsed_value:
  "(\<exists>l. load_history json_parse got s = Inr l)
   \<and> history initial_state = []
   \<and> load_history json_parse (Inr None) initial_state = Inr (WellTyped initial_state)
   \<and> load_history json_parse (Inl e) initial_state = Inr (WellTyped initial_state)
   \<and> (json_parse stored = Inl e \<longrightarrow>
        load_history json_parse (Inr (Some stored)) initial_state = Inr (WellTyped initial_state))
   \<and> (stored \<noteq> [] \<and> json_parse stored = Inr (Value v) \<longrightarrow>
        load_history json_parse (Inr (Some stored)) s = Inr (IllTyped v s))
   \<and> (\<exists>err. history_is_empty (IllTyped JNull s) = Inl err)"
proof -
  have "\<exists>l. load_history json_parse got s = Inr l"
    unfolding load_history_def by (rule try_catch_total_handler) simp
  then show ?thesis
    by (simp add: load_history_def try_catch_def initial_state_def history_is_empty_def)
qed

theorem load_history_stores_any_parsed_value_witness:
  "utf16 ''null'' \<noteq> []
   \<and> load_history (\<lambda>t. Inr (Value JNull)) (Inr (Some (utf16 ''null''))) initial_state
       = Inr (IllTyped JNull initial_state)
   \<and> history_is_empty (IllTyped JNull initial_state)
       = Inl (Error (utf16 ''Cannot read properties of null''))
   \<and> load_history (\<lambda>t. Inl (Error (utf16 ''Unexpected token''))) (Inr (Some (utf16 ''[1, 2'')))
        initial_state
       = Inr (WellTyped initial_state)"
proof -
  have n: "utf16 ''null'' \<noteq> []" by (simp add: utf16_def)
  have "load_history (\<lambda>t. Inr (Value JNull)) (Inr (Some (utf16 ''null''))) initial_state
      = Inr (IllTyped JNull initial_state)"
    using n load_history_stores_any_parsed_value
      [where json_parse = "\<lambda>t. Inr (Value JNull)" and stored = "utf16 ''null''" and v = JNull
         and s = initial_state]
    by simp
  moreover have "load_history (\<lambda>t. Inl (Error (utf16 ''Unexpected token'')))
        (Inr (Some (utf16 ''[1, 2''))) initial_state = Inr (WellTyped initial_state)"
    using load_history_stores_any_parsed_value
      [where json_parse = "\<lambda>t. Inl (Error (utf16 ''Unexpected token''))"
         and stored = "utf16 ''[1, 2''" and e = "Error (utf16 ''Unexpected token'')"]
    by simp
  ultimately show ?thesis
    using n by (simp add: history_is_empty_def)
qed

section \<open>Solving\<close>

lemma api_error_prefix_nonempty: "api_error_prefix @ message \<noteq> []"
  by (simp add: api_error_prefix_def)

text \<open>
  C1 does not hold of the code. \<open>handleSolve\<close> awaits \<open>solveLimitFromImage\<close>, which turns a
  failure of the remote call into a fulfilment, so a failed call never reaches the \<open>catch\<close>
  block of \<open>handleSolve\<close>: a solve ends with no error on display unless the call answered
  without text. When the remote call throws an \<open>Error\<close>, the service's message, which ends
  in the text of that error, is displayed as the solution and inserted into the history as
  a solved problem.
\<close>

theorem handleSolve_failed_call_shown_as_solution:
  "(generateContent (mimeType img) (base64 img) \<noteq> Fulfilled None \<longrightarrow>
      error (handleSolve generateContent now (s\<lparr>imageBase64 := Some img\<rparr>)) = None)
   \<and> solution (handleSolve (\<lambda>t d. Rejected (Error message)) now (s\<lparr>imageBase64 := Some img\<rparr>))
       = Some (api_error_prefix @ message)
   \<and> displayed (handleSolve (\<lambda>t d. Rejected (Error message)) now (s\<lparr>imageBase64 := Some img\<rparr>))
       = Succeeded (api_error_prefix @ message)
   \<and> history (handleSolve (\<lambda>t d. Rejected (Error message)) now (s\<lparr>imageBase64 := Some img\<rparr>))
       = history_insert
           \<lparr>entry_id = now, imageData = img,
            problemSnippet = extractSnippet (api_error_prefix @ message),
            fullSolution = api_error_prefix @ message\<rparr>
           (history s)"
proof -
  have "generateContent (mimeType img) (base64 img) \<noteq> Fulfilled None \<longrightarrow>
      error (handleSolve generateContent now (s\<lparr>imageBase64 := Some img\<rparr>)) = None"
    by (simp add: handleSolve_def handleSolve_settle_def handleSolve_begin_def
        solveLimitFromImage_def split: settled.split thrown.split option.split)
  moreover have "solveLimitFromImage (\<lambda>t d. Rejected (Error message)) (base64 img) (mimeType img)
      = Fulfilled (Some (api_error_prefix @ message))"
    by (simp add: solveLimitFromImage_def)
  ultimately show ?thesis
    using api_error_prefix_nonempty [of message]
    by (simp add: handleSolve_def handleSolve_settle_def handleSolve_begin_def displayed_def
        or_default_def)
qed

theorem handleSolve_failed_call_shown_as_solution_witness:
  "(\<lambda>t d. Rejected (Error (utf16 ''fetch failed''))) (utf16 ''image/png'') (utf16 ''iVBORw0K'')
     \<noteq> (Fulfilled None :: jsstring option settled)
   \<and> error (handleSolve (\<lambda>t d. Rejected (Error (utf16 ''fetch failed''))) 1700000000000
        showing_solution) = None
   \<and> solution (handleSolve (\<lambda>t d. Rejected (Error (utf16 ''fetch failed''))) 1700000000000
        showing_solution) = Some (api_error_prefix @ utf16 ''fetch failed'')
   \<and> length (history (handleSolve (\<lambda>t d. Rejected (Error (utf16 ''fetch failed''))) 1700000000000
        showing_solution)) = 1"
proof -
  let ?img = "\<lparr>base64 = utf16 ''iVBORw0K'', mimeType = utf16 ''image/png''\<rparr>"
  have same: "showing_solution\<lparr>imageBase64 := Some ?img\<rparr> = showing_solution"
    by (simp add: showing_solution_state)
  have empty: "history showing_solution = []"
    by (simp add: showing_solution_state initial_state_def)
  show ?thesis
    using handleSolve_failed_call_shown_as_solution
      [where generateContent = "\<lambda>t d. Rejected (Error (utf16 ''fetch failed''))"
         and img = ?img and s = showing_solution and now = 1700000000000
         and message = "utf16 ''fetch failed''"]
    by (simp add: same empty history_insert_def js_slice_def)
qed

section \<open>Object URLs\<close>

lemma handleCropConfirm_store:
  "objectUrls (handleCropConfirm cv new_url s) = objectUrls s
   \<or> (\<exists>blob. objectUrls (handleCropConfirm cv new_url s) = (new_url, blob) # objectUrls s)"
  by (auto simp: handleCropConfirm_def getCroppedImg_def createObjectURL_def Let_def
      split: option.splits settled.splits prod.splits)

lemma data_url_not_blob: "\<not> blob_url (data_url m p)"
  by (simp add: blob_url_def data_url_def utf16_def)

lemma unreachable_url_step:
  assumes "unreachable_url url s" and "blob_url url" and "handed_out e \<noteq> Some url"
  shows "unreachable_url url (step e s)"
proof (cases e)
  case (ImageChange picked new_url)
  with assms show ?thesis
    by (cases picked)
       (auto simp: unreachable_url_def handleImageChange_def handed_out_def createObjectURL_def
          revoke_if_set_def revokeObjectURL_def image_iff split: option.splits)
next
  case (CropConfirm cv new_url)
  with assms handleCropConfirm_store [of cv new_url s] show ?thesis
    by (auto simp: unreachable_url_def handed_out_def handleCropConfirm_def getCroppedImg_def
        Let_def createObjectURL_def split: option.splits settled.splits prod.splits if_splits)
next
  case (SelectHistoryItem item)
  with assms data_url_not_blob show ?thesis
    by (auto simp: unreachable_url_def handleSelectHistoryItem_def)
next
  case (Solve g n)
  with assms show ?thesis
    by (auto simp: unreachable_url_def handleSolve_def handleSolve_settle_def handleSolve_begin_def
        split: option.splits sum.splits settled.splits)
qed (use assms in \<open>auto simp: unreachable_url_def handleCropCancel_def handleSolve_begin_def
      handleSolve_settle_def handleClearHistory_def handleDeleteHistoryEntry_def
      split: option.splits sum.splits settled.splits\<close>)

lemma unreachable_url_run:
  "unreachable_url url s \<Longrightarrow> blob_url url \<Longrightarrow> \<forall>e\<in>set events. handed_out e \<noteq> Some url \<Longrightarrow>
   unreachable_url url (run events s)"
  unfolding run_def
  by (induction events arbitrary: s) (simp_all add: unreachable_url_step)

lemma unreachable_after_cancel:
  "unreachable_url url (handleCropCancel (handleImageChange (Some f) url s))"
  by (simp add: unreachable_url_def handleCropCancel_def handleImageChange_def createObjectURL_def)

text \<open>
  C3 does not hold of the code. Neither exit from the crop session releases anything:
  \<open>handleCropCancel\<close> leaves the registry as it is and \<open>handleCropConfirm\<close> only ever adds to
  it, and \<open>handleSelectHistoryItem\<close> replaces the display URL without releasing the one it
  supersedes. The object URL created for the picked file is still registered after a
  cancel, while no state cell holds it any more; and since only the URLs in those cells are
  ever revoked, it stays registered through every later sequence of events.
\<close>

theorem crop_exit_never_releases_pending_url:
  "objectUrls (handleCropCancel s) = objectUrls s
   \<and> set (objectUrls s) \<subseteq> set (objectUrls (handleCropConfirm cv new_url s))
   \<and> objectUrls (handleSelectHistoryItem item s) = objectUrls s
   \<and> map_of (objectUrls (handleCropCancel (handleImageChange (Some f) url s))) url
       = Some (file_content f)
   \<and> uncroppedImageUrl (handleCropCancel (handleImageChange (Some f) url s)) = None
   \<and> imageUrl (handleCropCancel (handleImageChange (Some f) url s)) = None
   \<and> (blob_url url \<and> (\<forall>e\<in>set events. handed_out e \<noteq> Some url) \<longrightarrow>
        unreachable_url url (run events (handleCropCancel (handleImageChange (Some f) url s))))"
proof -
  have "set (objectUrls s) \<subseteq> set (objectUrls (handleCropConfirm cv new_url s))"
    using handleCropConfirm_store [of cv new_url s] by auto
  moreover have "blob_url url \<and> (\<forall>e\<in>set events. handed_out e \<noteq> Some url) \<longrightarrow>
      unreachable_url url (run events (handleCropCancel (handleImageChange (Some f) url s)))"
    using unreachable_url_run [OF unreachable_after_cancel] by blast
  ultimately show ?thesis
    by (simp add: handleCropCancel_def handleImageChange_def createObjectURL_def
        handleSelectHistoryItem_def)
qed

theorem crop_exit_never_releases_pending_url_witness:
  "blob_url (utf16 ''blob:2'')
   \<and> map handed_out [ImageChange (Some png_file) (utf16 ''blob:3''), CropCancel, ClearHistory]
       = [Some (utf16 ''blob:3''), None, None]
   \<and> utf16 ''blob:3'' \<noteq> utf16 ''blob:2''
   \<and> unreachable_url (utf16 ''blob:2'')
        (run [ImageChange (Some png_file) (utf16 ''blob:3''), CropCancel, ClearHistory]
           (handleCropCancel (handleImageChange (Some sample_file) (utf16 ''blob:2'') showing_solution)))"
proof -
  have h: "blob_url (utf16 ''blob:2'')
     \<and> (\<forall>e\<in>set [ImageChange (Some png_file) (utf16 ''blob:3''), CropCancel, ClearHistory].
           handed_out e \<noteq> Some (utf16 ''blob:2''))"
    by (simp add: blob_url_def handed_out_def utf16_def)
  have m: "map handed_out [ImageChange (Some png_file) (utf16 ''blob:3''), CropCancel, ClearHistory]
       = [Some (utf16 ''blob:3''), None, None]
     \<and> utf16 ''blob:3'' \<noteq> utf16 ''blob:2''"
    by (simp add: handed_out_def utf16_def)
  from h crop_exit_never_releases_pending_url
    [where url = "utf16 ''blob:2''" and f = sample_file and s = showing_solution
       and events = "[ImageChange (Some png_file) (utf16 ''blob:3''), CropCancel, ClearHistory]"]
  have "unreachable_url (utf16 ''blob:2'')
        (run [ImageChange (Some png_file) (utf16 ''blob:3''), CropCancel, ClearHistory]
           (handleCropCancel (handleImageChange (Some sample_file) (utf16 ''blob:2'') showing_solution)))"
    by blast
  with h m show ?thesis by blast
qed

section \<open>Cancelling the crop session\<close>

lemma displayed_cong:
  "isLoading a = isLoading b \<Longrightarrow> error a = error b \<Longrightarrow> solution a = solution b \<Longrightarrow>
   displayed a = displayed b"
  by (simp add: displayed_def)

text \<open>
  C4, as amended. \<open>handleCropCancel\<close> closes the crop dialog and changes neither the problem
  state (image and display URL) nor the solve outcome (solution, error, loading flag, and so
  what is displayed), nor the history; it cannot throw. They are therefore as the file pick
  that opened the session left them, and that pick had already cleared the image, the
  display URL, the solution and the error.
\<close>

theorem handleCropCancel_frame:
  "imageBase64 (handleCropCancel s) = imageBase64 s
   \<and> imageUrl (handleCropCancel s) = imageUrl s
   \<and> solution (handleCropCancel s) = solution s
   \<and> error (handleCropCancel s) = error s
   \<and> isLoading (handleCropCancel s) = isLoading s
   \<and> displayed (handleCropCancel s) = displayed s
   \<and> history (handleCropCancel s) = history s
   \<and> isCropperOpen (handleCropCancel s) = False
   \<and> imageBase64 (handleImageChange (Some f) url s) = None
   \<and> imageUrl (handleImageChange (Some f) url s) = None
   \<and> solution (handleImageChange (Some f) url s) = None
   \<and> error (handleImageChange (Some f) url s) = None
   \<and> isCropperOpen (handleImageChange (Some f) url s) = True"
proof -
  have "displayed (handleCropCancel s) = displayed s"
    by (rule displayed_cong) (simp_all add: handleCropCancel_def)
  then show ?thesis
    by (simp add: handleCropCancel_def handleImageChange_def)
qed

text \<open>
  C4 as stated fails: with a problem and its solution on display, picking a file opens the
  crop session, and after the cancel the image, the display URL and the solution are gone.
\<close>

theorem crop_cancel_after_pick_counterexample:
  "imageBase64 showing_solution
     = Some \<lparr>base64 = utf16 ''iVBORw0K'', mimeType = utf16 ''image/png''\<rparr>
   \<and> imageUrl showing_solution = Some (utf16 ''blob:1'')
   \<and> displayed showing_solution = Succeeded (utf16 ''## $x$'')
   \<and> isCropperOpen (handleImageChange (Some sample_file) (utf16 ''blob:2'') showing_solution)
   \<and> imageBase64 (handleCropCancel
        (handleImageChange (Some sample_file) (utf16 ''blob:2'') showing_solution)) = None
   \<and> imageUrl (handleCropCancel
        (handleImageChange (Some sample_file) (utf16 ''blob:2'') showing_solution)) = None
   \<and> displayed (handleCropCancel
        (handleImageChange (Some sample_file) (utf16 ''blob:2'') showing_solution)) = Idle"
  by (simp add: handleCropCancel_def handleImageChange_def displayed_def showing_solution_state
      initial_state_def or_default_def utf16_def)

section \<open>Selecting, deleting and clearing history entries\<close>

text \<open>
  C6, as amended. Selecting an entry sets the image to the entry's image, the display URL to
  the data URL of that image, the solution to the entry's full solution and the error to
  absent; it changes neither the history nor the loading flag. So when no solve is in
  flight and the full solution is not the empty string, what is displayed is
  \<open>Succeeded\<close> with the entry's full solution. Deleting an entry and clearing the history
  change nothing of the problem state or of the solve outcome.
\<close>

theorem handleSelectHistoryItem_effect:
  "imageBase64 (handleSelectHistoryItem item s) = Some (imageData item)
   \<and> imageUrl (handleSelectHistoryItem item s)
       = Some (data_url (mimeType (imageData item)) (base64 (imageData item)))
   \<and> solution (handleSelectHistoryItem item s) = Some (fullSolution item)
   \<and> error (handleSelectHistoryItem item s) = None
   \<and> history (handleSelectHistoryItem item s) = history s
   \<and> isLoading (handleSelectHistoryItem item s) = isLoading s
   \<and> (\<not> isLoading s \<and> fullSolution item \<noteq> [] \<longrightarrow>
        displayed (handleSelectHistoryItem item s) = Succeeded (fullSolution item))
   \<and> imageBase64 (handleDeleteHistoryEntry i s) = imageBase64 s
   \<and> imageUrl (handleDeleteHistoryEntry i s) = imageUrl s
   \<and> solution (handleDeleteHistoryEntry i s) = solution s
   \<and> error (handleDeleteHistoryEntry i s) = error s
   \<and> isLoading (handleDeleteHistoryEntry i s) = isLoading s
   \<and> displayed (handleDeleteHistoryEntry i s) = displayed s
   \<and> imageBase64 (handleClearHistory s) = imageBase64 s
   \<and> imageUrl (handleClearHistory s) = imageUrl s
   \<and> solution (handleClearHistory s) = solution s
   \<and> error (handleClearHistory s) = error s
   \<and> isLoading (handleClearHistory s) = isLoading s
   \<and> displayed (handleClearHistory s) = displayed s"
proof -
  have "displayed (handleDeleteHistoryEntry i s) = displayed s"
    by (rule displayed_cong) (simp_all add: handleDeleteHistoryEntry_def)
  moreover have "displayed (handleClearHistory s) = displayed s"
    by (rule displayed_cong) (simp_all add: handleClearHistory_def)
  moreover have "\<not> isLoading s \<and> fullSolution item \<noteq> [] \<longrightarrow>
      displayed (handleSelectHistoryItem item s) = Succeeded (fullSolution item)"
    by (simp add: handleSelectHistoryItem_def displayed_def or_default_def)
  ultimately show ?thesis
    by (simp add: handleSelectHistoryItem_def handleDeleteHistoryEntry_def handleClearHistory_def)
qed

theorem handleSelectHistoryItem_effect_witness:
  "\<not> isLoading showing_solution \<and> fullSolution (numbered_entry 1) \<noteq> []
   \<and> displayed (handleSelectHistoryItem (numbered_entry 1) showing_solution)
       = Succeeded (fullSolution (numbered_entry 1))"
proof -
  have h: "\<not> isLoading showing_solution \<and> fullSolution (numbered_entry 1) \<noteq> []"
    by (simp add: showing_solution_state initial_state_def numbered_entry_def utf16_def)
  with handleSelectHistoryItem_effect [of "numbered_entry 1" showing_solution]
  show ?thesis by blast
qed

text \<open>
  C6 as stated fails while a solve is in flight: the loading flag stays set, and the loader
  is displayed instead of the selected entry's solution.
\<close>

theorem select_during_solve_counterexample:
  "imageBase64 showing_solution \<noteq> None
   \<and> isLoading (step SolveBegin showing_solution)
   \<and> displayed (handleSelectHistoryItem (numbered_entry 1) (step SolveBegin showing_solution))
       = InProgress
   \<and> displayed (handleSelectHistoryItem (numbered_entry 1) (step SolveBegin showing_solution))
       \<noteq> Succeeded (fullSolution (numbered_entry 1))"
  by (simp add: handleSelectHistoryItem_def handleSolve_begin_def displayed_def
      showing_solution_state)

section \<open>The encoder\<close>

lemma js_split_first_piece: "\<exists>piece. js_index (js_split sep s) 0 = Some piece"
  by (induction s) (auto split: list.splits)

lemma js_split_second_piece:
  "sep \<in> set s \<Longrightarrow> \<exists>piece. js_index (js_split sep s) 1 = Some piece"
proof (induction s)
  case Nil
  then show ?case by simp
next
  case (Cons c cs)
  show ?case
  proof (cases "c = sep")
    case True
    then show ?thesis using js_split_first_piece [of sep cs] by simp
  next
    case False
    with Cons obtain piece where "js_index (js_split sep cs) 1 = Some piece" by auto
    with False show ?thesis by (auto split: list.splits)
  qed
qed

lemma toDataURL_has_payload:
  "\<exists>piece. js_index (js_split comma (toDataURL cv drawn mt q)) 1 = Some piece"
proof (rule js_split_second_piece)
  show "comma \<in> set (toDataURL cv drawn mt q)"
    by (simp add: toDataURL_def data_url_def utf16_def comma_def split: option.split)
qed

lemma js_split_no_sep: "sep \<notin> set s \<Longrightarrow> js_split sep s = [s]"
  by (induction s) auto

lemma js_split_append:
  "sep \<notin> set a \<Longrightarrow> js_split sep (a @ sep # b) = a # js_split sep b"
  by (induction a) auto

lemma data_url_payload:
  assumes "comma \<notin> set m" and "comma \<notin> set p"
  shows "js_index (js_split comma (data_url m p)) 1 = Some p"
proof -
  have "comma \<notin> set (utf16 ''data:'' @ m @ utf16 '';base64'')"
    using assms by (simp add: utf16_def comma_def)
  then have "js_split comma ((utf16 ''data:'' @ m @ utf16 '';base64'') @ comma # p)
      = (utf16 ''data:'' @ m @ utf16 '';base64'') # js_split comma p"
    by (rule js_split_append)
  moreover have "data_url m p = (utf16 ''data:'' @ m @ utf16 '';base64'') @ comma # p"
    by (simp add: data_url_def utf16_def comma_def)
  ultimately show ?thesis
    using assms by (simp add: js_split_no_sep)
qed

text \<open>
  C7 does not hold of the code. When a context is available and the canvas serialises, the
  payload that \<open>getCroppedImg\<close> returns is the serialisation with no quality given, that is
  at the browser's default quality; only the blob behind the display URL is serialised at
  quality 1. (The MIME type and the payload are taken to contain no comma, as MIME types
  and Base64 text do not.)
\<close>

theorem getCroppedImg_payload_at_default_quality:
  assumes "getContext cv"
    and "serialise cv (img, crop, pixel_ratio cv) mt None = Some payload"
    and "serialise cv (img, crop, pixel_ratio cv) mt (Some 1) = Some blob"
    and "comma \<notin> set mt" and "comma \<notin> set payload"
  shows "getCroppedImg cv img crop mt new_url store
     = Fulfilled (\<lparr>cropped_base64 = payload, cropped_url = new_url\<rparr>, (new_url, blob) # store)"
  using assms data_url_payload [of mt payload]
  by (simp add: getCroppedImg_def toDataURL_def toBlob_def createObjectURL_def Let_def)

theorem getCroppedImg_payload_at_default_quality_witness:
  "getContext lossy_canvas
   \<and> serialise lossy_canvas (sample_image, sample_crop, pixel_ratio lossy_canvas)
        (utf16 ''image/jpeg'') None = Some (utf16 ''ZGVmYXVsdA=='')
   \<and> serialise lossy_canvas (sample_image, sample_crop, pixel_ratio lossy_canvas)
        (utf16 ''image/jpeg'') (Some 1) = Some (utf16 ''bWF4'')
   \<and> comma \<notin> set (utf16 ''image/jpeg'') \<and> comma \<notin> set (utf16 ''ZGVmYXVsdA=='')
   \<and> getCroppedImg lossy_canvas sample_image sample_crop (utf16 ''image/jpeg'') (utf16 ''blob:3'') []
       = Fulfilled (\<lparr>cropped_base64 = utf16 ''ZGVmYXVsdA=='', cropped_url = utf16 ''blob:3''\<rparr>,
                    [(utf16 ''blob:3'', utf16 ''bWF4'')])
   \<and> utf16 ''ZGVmYXVsdA=='' \<noteq> utf16 ''bWF4''"
proof -
  have h: "getContext lossy_canvas"
    "serialise lossy_canvas (sample_image, sample_crop, pixel_ratio lossy_canvas)
       (utf16 ''image/jpeg'') None = Some (utf16 ''ZGVmYXVsdA=='')"
    "serialise lossy_canvas (sample_image, sample_crop, pixel_ratio lossy_canvas)
       (utf16 ''image/jpeg'') (Some 1) = Some (utf16 ''bWF4'')"
    "comma \<notin> set (utf16 ''image/jpeg'')" "comma \<notin> set (utf16 ''ZGVmYXVsdA=='')"
    by (simp_all add: lossy_canvas_def utf16_def comma_def)
  have "utf16 ''ZGVmYXVsdA=='' \<noteq> utf16 ''bWF4''" by (simp add: utf16_def)
  with h getCroppedImg_payload_at_default_quality [OF h, of "utf16 ''blob:3''" "[]"]
  show ?thesis by simp
qed

section \<open>The invariant of the problem state\<close>

lemma presence_inv_initial: "presence_inv initial_state"
  by (simp add: presence_inv_def initial_state_def)

lemma presence_inv_step: "presence_inv s \<Longrightarrow> presence_inv (step e s)"
proof (cases e)
  case (CropConfirm cv new_url)
  assume "presence_inv s"
  with CropConfirm show ?thesis
    by (auto simp: presence_inv_def handleCropConfirm_def
        split: option.splits settled.splits prod.splits)
qed (auto simp: presence_inv_def handleImageChange_def handleCropCancel_def handleSolve_def
      handleSolve_begin_def handleSolve_settle_def handleSelectHistoryItem_def
      handleClearHistory_def handleDeleteHistoryEntry_def split: option.splits sum.splits settled.splits)

lemma presence_inv_run: "presence_inv s \<Longrightarrow> presence_inv (run events s)"
  unfolding run_def by (induction events arbitrary: s) (simp_all add: presence_inv_step)

lemma problem_state_inv_cong:
  "imageBase64 a = imageBase64 b \<Longrightarrow> imageUrl a = imageUrl b \<Longrightarrow> objectUrls a = objectUrls b \<Longrightarrow>
   problem_state_inv a = problem_state_inv b"
  by (simp add: problem_state_inv_def split: option.splits)

lemma problem_state_inv_step:
  assumes "problem_state_inv s" and "\<not> is_confirm e"
  shows "problem_state_inv (step e s)"
proof (cases e)
  case (ImageChange picked new_url)
  with assms show ?thesis
    by (cases picked) (simp_all add: problem_state_inv_def handleImageChange_def)
next
  case (SelectHistoryItem item)
  then show ?thesis
    by (simp add: problem_state_inv_def handleSelectHistoryItem_def url_shows_def)
next
  case (CropConfirm cv new_url)
  with assms show ?thesis by (simp add: is_confirm_def)
next
  case (Solve g n)
  have "problem_state_inv (handleSolve g n s) = problem_state_inv s"
    by (rule problem_state_inv_cong)
       (simp_all add: handleSolve_def handleSolve_begin_def handleSolve_settle_def
          split: option.splits sum.splits settled.splits)
  with assms Solve show ?thesis by simp
next
  case (SolveSettle img awaited n)
  have "problem_state_inv (handleSolve_settle img awaited n s) = problem_state_inv s"
    by (rule problem_state_inv_cong) (simp_all add: handleSolve_settle_def split: sum.splits option.splits)
  with assms SolveSettle show ?thesis by simp
next
  case SolveBegin
  have "problem_state_inv (step SolveBegin s) = problem_state_inv s"
    by (rule problem_state_inv_cong) (simp_all add: handleSolve_begin_def split: option.splits)
  with assms SolveBegin show ?thesis by simp
next
  case CropCancel
  have "problem_state_inv (handleCropCancel s) = problem_state_inv s"
    by (rule problem_state_inv_cong) (simp_all add: handleCropCancel_def)
  with assms CropCancel show ?thesis by simp
next
  case ClearHistory
  have "problem_state_inv (handleClearHistory s) = problem_state_inv s"
    by (rule problem_state_inv_cong) (simp_all add: handleClearHistory_def)
  with assms ClearHistory show ?thesis by simp
next
  case (DeleteHistoryEntry i)
  have "problem_state_inv (handleDeleteHistoryEntry i s) = problem_state_inv s"
    by (rule problem_state_inv_cong) (simp_all add: handleDeleteHistoryEntry_def)
  with assms DeleteHistoryEntry show ?thesis by simp
next
  case (ImageLoaded img)
  have "problem_state_inv (step (ImageLoaded img) s) = problem_state_inv s"
    by (rule problem_state_inv_cong) simp_all
  with assms ImageLoaded show ?thesis by simp
next
  case (CropComplete c)
  have "problem_state_inv (step (CropComplete c) s) = problem_state_inv s"
    by (rule problem_state_inv_cong) simp_all
  with assms CropComplete show ?thesis by simp
qed

lemma toDataURL_payload:
  assumes "comma \<notin> set mt"
    and "\<And>p. serialise cv drawn mt q = Some p \<Longrightarrow> comma \<notin> set p"
  shows "(case js_index (js_split comma (toDataURL cv drawn mt q)) 1 of None \<Rightarrow> [] | Some piece \<Rightarrow> piece)
     = (case serialise cv drawn mt q of None \<Rightarrow> [] | Some p \<Rightarrow> p)"
proof (cases "serialise cv drawn mt q")
  case None
  then show ?thesis
    by (simp add: toDataURL_def utf16_def comma_def)
next
  case (Some p)
  with assms data_url_payload [of mt p] show ?thesis
    by (simp add: toDataURL_def)
qed

lemma problem_state_inv_confirm:
  assumes inv: "problem_state_inv s"
    and blind: "\<And>drawn mt. serialise cv drawn mt None = serialise cv drawn mt (Some 1)"
    and mime: "\<And>mt. originalMimeType s = Some mt \<Longrightarrow> comma \<notin> set mt"
    and clean: "\<And>drawn mt q p. serialise cv drawn mt q = Some p \<Longrightarrow> comma \<notin> set p"
  shows "problem_state_inv (handleCropConfirm cv new_url s)"
proof (cases "completedCrop s")
  case None
  with inv show ?thesis by (simp add: handleCropConfirm_def)
next
  case crop: (Some crop)
  show ?thesis
  proof (cases "cropImageRef s")
    case None
    with inv crop show ?thesis by (simp add: handleCropConfirm_def)
  next
    case img: (Some img)
    show ?thesis
    proof (cases "originalMimeType s")
      case None
      with inv crop img show ?thesis by (simp add: handleCropConfirm_def)
    next
      case mt: (Some mt)
      let ?drawn = "(img, crop, pixel_ratio cv)"
      have pay: "(case js_index (js_split comma (toDataURL cv ?drawn mt None)) 1 of
                    None \<Rightarrow> [] | Some piece \<Rightarrow> piece)
          = (case serialise cv ?drawn mt None of None \<Rightarrow> [] | Some p \<Rightarrow> p)"
        using mime [OF mt] clean by (rule toDataURL_payload)
      show ?thesis
      proof (cases "mt = [] \<or> \<not> getContext cv \<or> serialise cv ?drawn mt (Some 1) = None")
        case True
        have "problem_state_inv (handleCropConfirm cv new_url s) = problem_state_inv s"
          by (rule problem_state_inv_cong)
             (use True crop img mt in \<open>auto simp: handleCropConfirm_def getCroppedImg_def
                toBlob_def Let_def\<close>)
        with inv show ?thesis by simp
      next
        case False
        then obtain blob where b: "serialise cv ?drawn mt (Some 1) = Some blob" by auto
        with blind have "serialise cv ?drawn mt None = Some blob" by simp
        with False b crop img mt pay show ?thesis
          by (simp add: handleCropConfirm_def getCroppedImg_def toBlob_def Let_def
              createObjectURL_def problem_state_inv_def url_shows_def)
      qed
    qed
  qed
qed

text \<open>
  C8 does not hold of the code. The display URL is present exactly when the image is, in
  every state the events can reach (\<open>presence_inv_run\<close>), and every event but a crop
  confirm keeps the display URL on the image's bytes (\<open>problem_state_inv_step\<close>), as does
  a crop confirm on a canvas whose serialisation ignores the quality
  (\<open>problem_state_inv_confirm\<close>). A crop confirm on a canvas whose serialisation depends on
  the quality breaks the second half:
  the image holds the payload serialised at the default quality, the display URL refers to
  the blob serialised at quality 1, and the two differ.
\<close>

theorem crop_confirm_display_differs_from_payload:
  "problem_state_inv cropping
   \<and> imageBase64 (handleCropConfirm lossy_canvas (utf16 ''blob:3'') cropping)
       = Some \<lparr>base64 = utf16 ''ZGVmYXVsdA=='', mimeType = utf16 ''image/jpeg''\<rparr>
   \<and> imageUrl (handleCropConfirm lossy_canvas (utf16 ''blob:3'') cropping) = Some (utf16 ''blob:3'')
   \<and> map_of (objectUrls (handleCropConfirm lossy_canvas (utf16 ''blob:3'') cropping)) (utf16 ''blob:3'')
       = Some (utf16 ''bWF4'')
   \<and> presence_inv (handleCropConfirm lossy_canvas (utf16 ''blob:3'') cropping)
   \<and> \<not> problem_state_inv (handleCropConfirm lossy_canvas (utf16 ''blob:3'') cropping)"
proof -
  have g: "getCroppedImg lossy_canvas sample_image sample_crop (utf16 ''image/jpeg'') (utf16 ''blob:3'')
       [(utf16 ''blob:2'', utf16 ''/9j/4AAQ'')]
     = Fulfilled (\<lparr>cropped_base64 = utf16 ''ZGVmYXVsdA=='', cropped_url = utf16 ''blob:3''\<rparr>,
                  [(utf16 ''blob:3'', utf16 ''bWF4''), (utf16 ''blob:2'', utf16 ''/9j/4AAQ'')])"
    by (simp add: getCroppedImg_def toDataURL_def toBlob_def createObjectURL_def lossy_canvas_def
        data_url_def utf16_def comma_def)
  have c: "handleCropConfirm lossy_canvas (utf16 ''blob:3'') cropping
     = cropping\<lparr>objectUrls := [(utf16 ''blob:3'', utf16 ''bWF4''),
                                 (utf16 ''blob:2'', utf16 ''/9j/4AAQ'')],
         imageBase64 := Some \<lparr>base64 = utf16 ''ZGVmYXVsdA=='', mimeType = utf16 ''image/jpeg''\<rparr>,
         imageUrl := Some (utf16 ''blob:3''),
         isCropperOpen := False, uncroppedImageUrl := None\<rparr>"
    unfolding handleCropConfirm_def
    by (simp add: cropping_state g) (simp add: initial_state_def utf16_def)
  show ?thesis
    unfolding c
    by (simp add: problem_state_inv_def presence_inv_def url_shows_def cropping_state initial_state_def)
       (simp add: data_url_def utf16_def)
qed

end
